theory Spec2Isabelle
  imports Main
begin

section \<open>Python values, classes and exceptions\<close>

text \<open>
  The storage holds values of type \<open>Any\<close>. The values this program puts there or passes
  as a default are \<open>None\<close>, the booleans and the integers, so these form the universe of
  stored values. Python integers are unbounded.
\<close>

datatype pyval = PyNone | PyBool bool | PyInt int

text \<open>The truth value Python's \<open>if\<close> gives to a value.\<close>

fun truthy :: "pyval \<Rightarrow> bool" where
  "truthy PyNone = False"
| "truthy (PyBool b) = b"
| "truthy (PyInt n) = (n \<noteq> 0)"

text \<open>
  A class is identified by its qualified name and carries its direct base classes.
  \<open>issubclass\<close> is Python's built-in: a class is a subclass of itself and of every
  class one of its bases is a subclass of.
\<close>

datatype pyclass = PyClass string "pyclass list"

fun issubclass :: "pyclass \<Rightarrow> pyclass \<Rightarrow> bool" where
  "issubclass (PyClass n bases) d =
     (PyClass n bases = d \<or> list_ex (\<lambda>b. issubclass b d) bases)"

text \<open>An exception instance: its class and its message.\<close>

datatype pyexc = PyExc pyclass string

fun type_of :: "pyexc \<Rightarrow> pyclass" where
  "type_of (PyExc c msg) = c"

definition BaseException_class :: pyclass where
  "BaseException_class = PyClass ''BaseException'' []"

definition Exception_class :: pyclass where
  "Exception_class = PyClass ''Exception'' [BaseException_class]"

definition TypeError_class :: pyclass where
  "TypeError_class = PyClass ''TypeError'' [Exception_class]"

text \<open>\<open>class CircuitOpenError(Exception): pass\<close>\<close>

definition CircuitOpenError_class :: pyclass where
  "CircuitOpenError_class = PyClass ''CircuitOpenError'' [Exception_class]"

definition CircuitOpenError :: "string \<Rightarrow> pyexc" where
  "CircuitOpenError msg = PyExc CircuitOpenError_class msg"

text \<open>
  The two errors the interpreter raises inside the storage: ordering \<open>None\<close> against a
  \<open>datetime\<close>, and adding 1 to \<open>None\<close>. Each message of CPython ends with an
  apostrophe (character 0x27).
\<close>

definition TypeError_lt :: pyexc where
  "TypeError_lt = PyExc TypeError_class
     ('''<' not supported between instances of 'NoneType' and 'datetime.datetime'' @ [CHR 0x27])"

definition TypeError_iadd :: pyexc where
  "TypeError_iadd = PyExc TypeError_class
     (''unsupported operand type(s) for +=: 'NoneType' and 'int'' @ [CHR 0x27])"

section \<open>Time\<close>

text \<open>
  A \<open>datetime\<close> has microsecond resolution: it is modelled as the integer number of
  microseconds since the epoch, and \<open>timedelta(days, seconds)\<close> as a number of
  microseconds. \<open>datetime.now()\<close> reads the wall clock; every operation that reads it
  takes the reading as its argument \<open>now\<close>. Clock readings and timeouts are taken to
  stay within the range of \<open>datetime\<close> (up to the year 9999), beyond which Python's
  addition raises \<open>OverflowError\<close>.
\<close>

type_synonym datetime = int

definition timedelta :: "int \<Rightarrow> int \<Rightarrow> int" where
  "timedelta days seconds = (days * 86400 + seconds) * 1000000"

section \<open>InMemoryStorage\<close>

text \<open>
  An entry of \<open>data\<close> is a dict with the key \<open>"value"\<close> and, when it was written by
  \<open>set\<close>, the key \<open>"expiration"\<close>, whose value is \<open>None\<close> or a \<open>datetime\<close>:
  \<open>entry_expiration\<close> is \<open>None\<close> when the dict has no such key (an entry that
  \<open>increment\<close> created), \<open>Some None\<close> when the key holds \<open>None\<close>, and
  \<open>Some (Some t)\<close> when it holds the datetime \<open>t\<close>.

  \<open>data\<close> is a class attribute that every method updates in place, so all storage
  instances of the process share one dict: it is the state \<open>storage\<close>, passed to every
  operation and returned updated.
\<close>

record entry =
  entry_value :: pyval
  entry_expiration :: "datetime option option"

type_synonym storage = "string \<rightharpoonup> entry"

definition storage_get :: "storage \<Rightarrow> datetime \<Rightarrow> string \<Rightarrow> pyval \<Rightarrow> pyexc + pyval" where
  "storage_get data now key dflt =
     (case data key of
        None \<Rightarrow> Inr dflt
      | Some e \<Rightarrow>
          (case entry_expiration e of
             None \<Rightarrow> Inr (entry_value e)
           | Some None \<Rightarrow> Inl TypeError_lt
           | Some (Some t) \<Rightarrow> if t < now then Inr dflt else Inr (entry_value e)))"

text \<open>\<open>if timeout\<close> is false for \<open>None\<close> and for 0.\<close>

definition storage_set :: "storage \<Rightarrow> datetime \<Rightarrow> string \<Rightarrow> pyval \<Rightarrow> int option \<Rightarrow> storage" where
  "storage_set data now key v timeout =
     data(key \<mapsto> \<lparr>entry_value = v,
                   entry_expiration = Some
                     (case timeout of
                        None \<Rightarrow> None
                      | Some s \<Rightarrow> if s \<noteq> 0 then Some (now + timedelta 0 s) else None)\<rparr>)"

text \<open>\<open>v += 1\<close>: a \<open>bool\<close> is an \<open>int\<close> in Python, \<open>None\<close> has no addition.\<close>

fun iadd_1 :: "pyval \<Rightarrow> pyexc + int" where
  "iadd_1 PyNone = Inl TypeError_iadd"
| "iadd_1 (PyBool b) = Inr ((if b then 1 else 0) + 1)"
| "iadd_1 (PyInt n) = Inr (n + 1)"

text \<open>
  \<open>setdefault\<close> inserts \<open>{"value": 0}\<close> when the key is missing and leaves an existing
  entry as it is; the expiration of the entry is not consulted.
\<close>

definition storage_increment :: "storage \<Rightarrow> string \<Rightarrow> (pyexc + int) \<times> storage" where
  "storage_increment data key =
     (let e = (case data key of
                 None \<Rightarrow> \<lparr>entry_value = PyInt 0, entry_expiration = None\<rparr>
               | Some e \<Rightarrow> e)
      in case iadd_1 (entry_value e) of
           Inl err \<Rightarrow> (Inl err, data(key \<mapsto> e))
         | Inr n \<Rightarrow> (Inr n, data(key \<mapsto> e\<lparr>entry_value := PyInt n\<rparr>)))"

section \<open>CircuitBreaker\<close>

text \<open>
  The fields of \<open>__init__\<close>. \<open>self.storage\<close> is always a fresh \<open>InMemoryStorage\<close>,
  whose \<open>data\<close> is the shared dict above; \<open>self.keys\<close> is derived from the id.
\<close>

record CircuitBreaker =
  errors_threshold :: int
  time_window :: int
  exceptions :: "pyclass list"
  open_duration :: int
  breaker_id :: string

definition keys_is_open :: "CircuitBreaker \<Rightarrow> string" where
  "keys_is_open cb = breaker_id cb @ ''__is_open__''"

definition keys_num_errors :: "CircuitBreaker \<Rightarrow> string" where
  "keys_num_errors cb = breaker_id cb @ ''__num_errors__''"

text \<open>\<open>__enter__\<close> returns \<open>self\<close>, which carries no state of its own.\<close>

definition cb_enter :: "CircuitBreaker \<Rightarrow> datetime \<Rightarrow> storage \<Rightarrow> pyexc + unit" where
  "cb_enter cb now data =
     (case storage_get data now (keys_is_open cb) (PyBool False) of
        Inl err \<Rightarrow> Inl err
      | Inr v \<Rightarrow>
          if truthy v
          then Inl (CircuitOpenError (breaker_id cb @ '' - Circuit Breaker is opened''))
          else Inr ())"

text \<open>
  \<open>exc_type\<close> is \<open>None\<close> when the body completed, the class of the raised exception
  otherwise. \<open>in\<close> on a tuple compares with \<open>==\<close>, which on classes is identity.
\<close>

definition counted :: "CircuitBreaker \<Rightarrow> pyclass option \<Rightarrow> bool" where
  "counted cb exc_type =
     (case exc_type of None \<Rightarrow> False | Some c \<Rightarrow> c \<in> set (exceptions cb))"

definition cb_exit ::
  "CircuitBreaker \<Rightarrow> datetime \<Rightarrow> pyclass option \<Rightarrow> storage \<Rightarrow> (pyexc + bool) \<times> storage" where
  "cb_exit cb now exc_type data =
     (if \<not> counted cb exc_type then (Inr False, data)
      else case storage_increment data (keys_num_errors cb) of
             (Inl err, data1) \<Rightarrow> (Inl err, data1)
           | (Inr n, data1) \<Rightarrow>
               if n \<ge> errors_threshold cb
               then (Inr True,
                     storage_set
                       (storage_set data1 now (keys_is_open cb) (PyBool True)
                          (Some (open_duration cb)))
                       now (keys_num_errors cb) (PyInt 0) None)
               else (Inr True, data1))"

section \<open>The with statement\<close>

text \<open>
  \<open>with CircuitBreaker(...): body\<close>. When \<open>__enter__\<close> raises, neither the body nor
  \<open>__exit__\<close> runs. Otherwise the body runs, \<open>__exit__\<close> receives the class of the
  exception the body raised (or \<open>None\<close>), and a true result suppresses that exception.
  The body is the caller's: it may change the caller's own state \<open>'u\<close> and the shared
  storage, and it completes (\<open>None\<close>) or raises.
\<close>

datatype outcome = Completed | Raised pyexc

type_synonym 'u body = "storage \<Rightarrow> 'u \<Rightarrow> pyexc option \<times> storage \<times> 'u"

definition with_stmt ::
  "CircuitBreaker \<Rightarrow> datetime \<Rightarrow> 'u body \<Rightarrow> datetime \<Rightarrow> storage \<Rightarrow> 'u \<Rightarrow> outcome \<times> storage \<times> 'u" where
  "with_stmt cb t_enter body t_exit data u =
     (case cb_enter cb t_enter data of
        Inl err \<Rightarrow> (Raised err, data, u)
      | Inr _ \<Rightarrow>
          (case body data u of
             (None, data1, u1) \<Rightarrow>
               (case cb_exit cb t_exit None data1 of
                  (Inl err, data2) \<Rightarrow> (Raised err, data2, u1)
                | (Inr _, data2) \<Rightarrow> (Completed, data2, u1))
           | (Some x, data1, u1) \<Rightarrow>
               (case cb_exit cb t_exit (Some (type_of x)) data1 of
                  (Inl err, data2) \<Rightarrow> (Raised err, data2, u1)
                | (Inr suppress, data2) \<Rightarrow>
                    (if suppress then Completed else Raised x, data2, u1))))"

text \<open>A body that raises \<open>x\<close> and touches nothing.\<close>

definition raising :: "pyexc \<Rightarrow> 'u body" where
  "raising x data u = (Some x, data, u)"

text \<open>
  Consecutive guarded sections whose bodies fail: each is given the clock reading of its
  \<open>__enter__\<close>, the exception its body raises and the clock reading of its
  \<open>__exit__\<close>. The result lists, for each section, what the caller saw and the storage
  it left.
\<close>

fun attempts ::
  "CircuitBreaker \<Rightarrow> (datetime \<times> pyexc \<times> datetime) list \<Rightarrow> storage \<Rightarrow> (outcome \<times> storage) list" where
  "attempts cb [] data = []"
| "attempts cb ((t_enter, x, t_exit) # fs) data =
     (case with_stmt cb t_enter (raising x) t_exit data () of
        (r, data1, _) \<Rightarrow> (r, data1) # attempts cb fs data1)"

text \<open>Direct calls of the two methods, in any order, on the shared storage.\<close>

datatype call = Enter datetime | Exit datetime "pyclass option"

datatype retval = Self | Flag bool

fun call_breaker :: "CircuitBreaker \<Rightarrow> call \<Rightarrow> storage \<Rightarrow> (pyexc + retval) \<times> storage" where
  "call_breaker cb (Enter now) data =
     (case cb_enter cb now data of Inl err \<Rightarrow> (Inl err, data) | Inr _ \<Rightarrow> (Inr Self, data))"
| "call_breaker cb (Exit now exc_type) data =
     (case cb_exit cb now exc_type data of
        (Inl err, data1) \<Rightarrow> (Inl err, data1)
      | (Inr b, data1) \<Rightarrow> (Inr (Flag b), data1))"

fun run :: "CircuitBreaker \<Rightarrow> call list \<Rightarrow> storage \<Rightarrow> (pyexc + retval) list \<times> storage" where
  "run cb [] data = ([], data)"
| "run cb (c # cs) data =
     (case call_breaker cb c data of
        (r, data1) \<Rightarrow> (case run cb cs data1 of (rs, data2) \<Rightarrow> (r # rs, data2)))"

text \<open>The settings of the demonstration at the end of the module.\<close>

definition RequestException_class :: pyclass where
  "RequestException_class =
     PyClass ''requests.RequestException'' [PyClass ''OSError'' [Exception_class]]"

definition Timeout_class :: pyclass where
  "Timeout_class = PyClass ''requests.Timeout'' [RequestException_class]"

definition HTTPError_class :: pyclass where
  "HTTPError_class = PyClass ''requests.HTTPError'' [RequestException_class]"

definition ConnectionError_class :: pyclass where
  "ConnectionError_class = PyClass ''requests.ConnectionError'' [RequestException_class]"

definition ConnectTimeout_class :: pyclass where
  "ConnectTimeout_class =
     PyClass ''requests.ConnectTimeout'' [ConnectionError_class, Timeout_class]"

definition settings :: CircuitBreaker where
  "settings = \<lparr>errors_threshold = 5, time_window = 20,
               exceptions = [Timeout_class, HTTPError_class, ConnectionError_class],
               open_duration = 10, breaker_id = ''foobar''\<rparr>"

section \<open>Notions used in the statements\<close>

text \<open>The integer a stored value counts as when 1 is added to it.\<close>

fun as_int :: "pyval \<Rightarrow> int option" where
  "as_int PyNone = None"
| "as_int (PyBool b) = Some (if b then 1 else 0)"
| "as_int (PyInt n) = Some n"

text \<open>
  The count the next \<open>increment\<close> of a key starts from: 0 for a missing key, the
  stored integer otherwise; \<open>None\<close> when the entry holds no integer.
\<close>

definition stored_count :: "storage \<Rightarrow> string \<Rightarrow> int option" where
  "stored_count data key =
     (case data key of None \<Rightarrow> Some 0 | Some e \<Rightarrow> as_int (entry_value e))"

text \<open>The \<open>"expiration"\<close> item of the entry of a key, \<open>None\<close> when there is none.\<close>

definition expiration_of :: "storage \<Rightarrow> string \<Rightarrow> datetime option option" where
  "expiration_of data key =
     (case data key of None \<Rightarrow> None | Some e \<Rightarrow> entry_expiration e)"

text \<open>The entry of a key, if there is one, carries no datetime as its expiration.\<close>

definition no_deadline :: "storage \<Rightarrow> string \<Rightarrow> bool" where
  "no_deadline data key =
     (case expiration_of data key of Some (Some t) \<Rightarrow> False | _ \<Rightarrow> True)"

section \<open>Properties of the storage\<close>

text \<open>
  The two keys of a breaker differ, and the \<open>is_open\<close> key of one breaker is never the
  \<open>num_errors\<close> key of another: the two suffixes differ in their third character
  from the end.
\<close>

lemma keys_distinct: "keys_is_open cb \<noteq> keys_num_errors cb"
  by (simp add: keys_is_open_def keys_num_errors_def)

lemma keys_disjoint: "keys_is_open cb' \<noteq> keys_num_errors cb"
proof
  assume "keys_is_open cb' = keys_num_errors cb"
  then have "rev (breaker_id cb' @ ''__is_open__'') = rev (breaker_id cb @ ''__num_errors__'')"
    by (simp add: keys_is_open_def keys_num_errors_def)
  then have "take 3 (rev (breaker_id cb' @ ''__is_open__'')) =
             take 3 (rev (breaker_id cb @ ''__num_errors__''))"
    by (rule arg_cong)
  then show False by simp
qed

lemma iadd_1_as_int: "as_int v = Some n \<Longrightarrow> iadd_1 v = Inr (n + 1)"
  by (cases v) auto

lemma entry_value_update:
  "e\<lparr>entry_value := v\<rparr> = \<lparr>entry_value = v, entry_expiration = entry_expiration e\<rparr>"
  by (cases e) simp

lemma storage_increment_count:
  assumes "stored_count data key = Some n"
  shows "storage_increment data key =
           (Inr (n + 1),
            data(key \<mapsto> \<lparr>entry_value = PyInt (n + 1),
                          entry_expiration = expiration_of data key\<rparr>))"
proof (cases "data key")
  case None
  with assms show ?thesis
    by (simp add: storage_increment_def stored_count_def expiration_of_def)
next
  case (Some e)
  with assms have "iadd_1 (entry_value e) = Inr (n + 1)"
    by (simp add: stored_count_def iadd_1_as_int)
  with Some show ?thesis
    by (simp add: storage_increment_def expiration_of_def entry_value_update)
qed

lemma stored_count_upd:
  "stored_count (data(key \<mapsto> \<lparr>entry_value = PyInt m, entry_expiration = ex\<rparr>)) key = Some m"
  by (simp add: stored_count_def)

lemma storage_get_missing: "data key = None \<Longrightarrow> storage_get data now key dflt = Inr dflt"
  by (simp add: storage_get_def)

lemma storage_get_expired:
  "expiration_of data key = Some (Some t) \<Longrightarrow> t < now \<Longrightarrow> storage_get data now key dflt = Inr dflt"
  by (auto simp: storage_get_def expiration_of_def split: option.splits)

lemma storage_increment_missing:
  "data key = None \<Longrightarrow>
     storage_increment data key =
       (Inr 1, data(key \<mapsto> \<lparr>entry_value = PyInt 1, entry_expiration = None\<rparr>))"
  by (simp add: storage_increment_def)

lemma increment_no_deadline:
  "no_deadline data k \<Longrightarrow> no_deadline (snd (storage_increment data key)) k"
  by (cases "data key"; cases "k = key")
     (auto simp: no_deadline_def expiration_of_def storage_increment_def Let_def
           split: sum.splits option.splits)

lemma increment_keeps_count:
  "stored_count data k \<noteq> None \<Longrightarrow> stored_count (snd (storage_increment data key)) k \<noteq> None"
  by (cases "data key"; cases "k = key")
     (auto simp: stored_count_def storage_increment_def Let_def split: sum.splits)

text \<open>
  C5. \<open>get\<close> treats an entry whose expiration is in the past as absent (lemmas
  \<open>storage_get_missing\<close> and \<open>storage_get_expired\<close>), and \<open>increment\<close> of a missing
  key returns 1 (lemma \<open>storage_increment_missing\<close>). \<open>increment\<close> of an expired entry
  does not start again from 0: it never looks at the expiration. An entry set to 5 with a
  timeout of one second reads as absent two seconds later, yet \<open>increment\<close> returns 6
  and the entry, still expired, goes on reading as absent.
\<close>

theorem increment_ignores_expiration:
  "storage_get (storage_set Map.empty 0 ''k'' (PyInt 5) (Some 1)) 2000000 ''k'' PyNone = Inr PyNone
   \<and> fst (storage_increment (storage_set Map.empty 0 ''k'' (PyInt 5) (Some 1)) ''k'') = Inr 6
   \<and> storage_get (snd (storage_increment (storage_set Map.empty 0 ''k'' (PyInt 5) (Some 1)) ''k''))
        2000000 ''k'' PyNone = Inr PyNone"
  by (simp add: storage_get_def storage_set_def storage_increment_def timedelta_def)

section \<open>Properties of the breaker\<close>



text \<open>
  C2. When \<open>is_open\<close> reads as a true value, \<open>__enter__\<close> raises \<open>CircuitOpenError\<close>
  with the message that starts with the breaker's id, and the guarded section ends there:
  whatever the body is, it is not run (the caller's state \<open>u\<close> comes back as it was)
  and the storage comes back unchanged. When \<open>is_open\<close> reads as a false value,
  \<open>__enter__\<close> returns.
\<close>

theorem enter_checks_is_open:
  "(storage_get data now (keys_is_open cb) (PyBool False) = Inr v \<and> truthy v \<longrightarrow>
      cb_enter cb now data =
        Inl (CircuitOpenError (breaker_id cb @ '' - Circuit Breaker is opened''))
      \<and> with_stmt cb now body t_exit data u =
          (Raised (CircuitOpenError (breaker_id cb @ '' - Circuit Breaker is opened'')),
           data, u))
   \<and> (storage_get data now (keys_is_open cb) (PyBool False) = Inr v \<and> \<not> truthy v \<longrightarrow>
      cb_enter cb now data = Inr ())"
  by (simp add: cb_enter_def with_stmt_def)

theorem enter_checks_is_open_witness:
  "storage_get
     [''foobar__is_open__'' \<mapsto>
        \<lparr>entry_value = PyBool True, entry_expiration = Some (Some 10000007)\<rparr>]
     8 (keys_is_open settings) (PyBool False) = Inr (PyBool True)
   \<and> truthy (PyBool True)
   \<and> cb_enter settings 8
        [''foobar__is_open__'' \<mapsto>
           \<lparr>entry_value = PyBool True, entry_expiration = Some (Some 10000007)\<rparr>] =
        Inl (CircuitOpenError ''foobar - Circuit Breaker is opened'')
   \<and> with_stmt settings 8 (\<lambda>data calls. (None, data, Suc calls)) 9
        [''foobar__is_open__'' \<mapsto>
           \<lparr>entry_value = PyBool True, entry_expiration = Some (Some 10000007)\<rparr>]
        (0::nat) =
        (Raised (CircuitOpenError ''foobar - Circuit Breaker is opened''),
         [''foobar__is_open__'' \<mapsto>
            \<lparr>entry_value = PyBool True, entry_expiration = Some (Some 10000007)\<rparr>],
         0)
   \<and> storage_get Map.empty 8 (keys_is_open settings) (PyBool False) = Inr (PyBool False)
   \<and> \<not> truthy (PyBool False)
   \<and> cb_enter settings 8 Map.empty = Inr ()"
  using enter_checks_is_open
      [of "[''foobar__is_open__'' \<mapsto>
             \<lparr>entry_value = PyBool True, entry_expiration = Some (Some 10000007)\<rparr>]"
          8 settings "PyBool True" "\<lambda>data calls. (None, data, Suc calls)" 9 "0::nat"]
    enter_checks_is_open [of Map.empty 8 settings "PyBool False"]
  by (simp add: storage_get_def settings_def keys_is_open_def)

text \<open>The steps of a breaker on a storage in which its flag is missing.\<close>

lemma enter_flag_missing: "data (keys_is_open cb) = None \<Longrightarrow> cb_enter cb now data = Inr ()"
  by (simp add: cb_enter_def storage_get_def)

lemma exit_below_threshold:
  assumes "type_of x \<in> set (exceptions cb)"
    and "stored_count data (keys_num_errors cb) = Some n"
    and "n + 1 < errors_threshold cb"
  shows "cb_exit cb now (Some (type_of x)) data =
           (Inr True,
            data(keys_num_errors cb \<mapsto>
                   \<lparr>entry_value = PyInt (n + 1),
                    entry_expiration = expiration_of data (keys_num_errors cb)\<rparr>))"
  using assms by (simp add: cb_exit_def counted_def storage_increment_count)

lemma attempts_stay_closed:
  assumes "data (keys_is_open cb) = None"
    and "stored_count data (keys_num_errors cb) = Some n"
    and "n + int (length fs) < errors_threshold cb"
    and "\<forall>(t_enter, x, t_exit) \<in> set fs. type_of x \<in> set (exceptions cb)"
  shows "length (attempts cb fs data) = length fs
       \<and> (\<forall>(r, d) \<in> set (attempts cb fs data). r = Completed \<and> d (keys_is_open cb) = None)"
  using assms
proof (induction fs arbitrary: data n)
  case Nil
  then show ?case by simp
next
  case (Cons f fs)
  obtain t_enter x t_exit where f: "f = (t_enter, x, t_exit)"
    by (cases f) auto
  define d1 where "d1 = data(keys_num_errors cb \<mapsto>
                   \<lparr>entry_value = PyInt (n + 1),
                    entry_expiration = expiration_of data (keys_num_errors cb)\<rparr>)"
  from Cons.prems f have x: "type_of x \<in> set (exceptions cb)" by simp
  from Cons.prems have below: "n + 1 < errors_threshold cb" by simp
  have step: "with_stmt cb t_enter (raising x) t_exit data () = (Completed, d1, ())"
    using Cons.prems(1,2) x below
    by (simp add: d1_def with_stmt_def enter_flag_missing raising_def exit_below_threshold)
  have flag: "d1 (keys_is_open cb) = None"
    using Cons.prems(1) keys_distinct [of cb] by (simp add: d1_def)
  have count: "stored_count d1 (keys_num_errors cb) = Some (n + 1)"
    unfolding d1_def by (rule stored_count_upd)
  have "n + 1 + int (length fs) < errors_threshold cb"
    and "\<forall>(t_enter, x, t_exit) \<in> set fs. type_of x \<in> set (exceptions cb)"
    using Cons.prems(3,4) by simp_all
  then have rest: "length (attempts cb fs d1) = length fs
       \<and> (\<forall>(r, d) \<in> set (attempts cb fs d1). r = Completed \<and> d (keys_is_open cb) = None)"
    by (rule Cons.IH [OF flag count])
  show ?case
    using rest flag by (simp add: f step)
qed

text \<open>
  C3. From the empty storage, fewer consecutive counted failures than \<open>errors_threshold\<close>
  leave the breaker closed: the caller sees every guarded section complete (so its
  \<open>__enter__\<close> returned and no \<open>CircuitOpenError\<close> was raised), and after each of them
  \<open>is_open\<close> is still missing from the storage, so that \<open>__enter__\<close> returns whenever it
  is called next.
\<close>

theorem below_threshold_stays_closed:
  assumes "int (length fs) < errors_threshold cb"
    and "\<forall>(t_enter, x, t_exit) \<in> set fs. type_of x \<in> set (exceptions cb)"
  shows "length (attempts cb fs Map.empty) = length fs
       \<and> (\<forall>(r, d) \<in> set (attempts cb fs Map.empty).
             r = Completed \<and> d (keys_is_open cb) = None \<and> (\<forall>now. cb_enter cb now d = Inr ()))"
proof -
  have "length (attempts cb fs Map.empty) = length fs
       \<and> (\<forall>(r, d) \<in> set (attempts cb fs Map.empty). r = Completed \<and> d (keys_is_open cb) = None)"
    using assms by (intro attempts_stay_closed [where n = 0]) (simp_all add: stored_count_def)
  then show ?thesis
    by (auto simp: enter_flag_missing)
qed

theorem below_threshold_stays_closed_witness:
  "int (length [(0::int, PyExc Timeout_class ''read timed out'', 3::int),
                (4, PyExc HTTPError_class ''502'', 9)]) < errors_threshold settings
   \<and> type_of (PyExc Timeout_class ''read timed out'') \<in> set (exceptions settings)
   \<and> type_of (PyExc HTTPError_class ''502'') \<in> set (exceptions settings)
   \<and> attempts settings
        [(0, PyExc Timeout_class ''read timed out'', 3), (4, PyExc HTTPError_class ''502'', 9)]
        Map.empty =
       [(Completed,
         [''foobar__num_errors__'' \<mapsto> \<lparr>entry_value = PyInt 1, entry_expiration = None\<rparr>]),
        (Completed,
         [''foobar__num_errors__'' \<mapsto> \<lparr>entry_value = PyInt 2, entry_expiration = None\<rparr>])]
   \<and> cb_enter settings 10
        [''foobar__num_errors__'' \<mapsto> \<lparr>entry_value = PyInt 2, entry_expiration = None\<rparr>] =
       Inr ()"
  using below_threshold_stays_closed
      [of "[(0, PyExc Timeout_class ''read timed out'', 3), (4, PyExc HTTPError_class ''502'', 9)]"
          settings]
  by (simp add: settings_def with_stmt_def raising_def cb_enter_def cb_exit_def counted_def
      storage_get_def storage_increment_def keys_is_open_def keys_num_errors_def
      Timeout_class_def HTTPError_class_def ConnectionError_class_def)

text \<open>The flag a trip writes.\<close>

lemma tripped_flag:
  assumes "c \<in> set (exceptions cb)"
    and "stored_count data0 (keys_num_errors cb) = Some n"
    and "n + 1 \<ge> errors_threshold cb"
  shows "snd (cb_exit cb t0 (Some c) data0) (keys_is_open cb) =
           Some \<lparr>entry_value = PyBool True,
                 entry_expiration =
                   Some (if open_duration cb \<noteq> 0
                         then Some (t0 + timedelta 0 (open_duration cb)) else None)\<rparr>"
  using assms keys_distinct [of cb]
  by (simp add: cb_exit_def counted_def storage_increment_count storage_set_def)

text \<open>
  C4, as the code has it. A breaker with a positive \<open>open_duration\<close> that tripped at
  \<open>t0\<close>: in every later storage that still holds the flag this trip wrote, whatever its
  \<open>num_errors\<close> entry is, \<open>is_open\<close> reads as \<open>False\<close> and \<open>__enter__\<close> returns as soon
  as the clock is strictly past \<open>t0\<close> plus \<open>open_duration\<close> seconds.
\<close>

theorem open_flag_expires:
  assumes "0 < open_duration cb"
    and "c \<in> set (exceptions cb)"
    and "stored_count data0 (keys_num_errors cb) = Some n"
    and "n + 1 \<ge> errors_threshold cb"
    and "data (keys_is_open cb) = snd (cb_exit cb t0 (Some c) data0) (keys_is_open cb)"
    and "t0 + timedelta 0 (open_duration cb) < now"
  shows "storage_get data now (keys_is_open cb) (PyBool False) = Inr (PyBool False)
       \<and> cb_enter cb now data = Inr ()"
proof -
  have "data (keys_is_open cb) =
          Some \<lparr>entry_value = PyBool True,
                entry_expiration = Some (Some (t0 + timedelta 0 (open_duration cb)))\<rparr>"
    using assms(1,5) tripped_flag [OF assms(2,3,4)] by simp
  then have "storage_get data now (keys_is_open cb) (PyBool False) = Inr (PyBool False)"
    using assms(6) by (simp add: storage_get_def)
  then show ?thesis by (simp add: cb_enter_def)
qed

theorem open_flag_expires_witness:
  "0 < open_duration settings
   \<and> Timeout_class \<in> set (exceptions settings)
   \<and> stored_count [''foobar__num_errors__'' \<mapsto> \<lparr>entry_value = PyInt 4, entry_expiration = None\<rparr>]
        (keys_num_errors settings) = Some 4
   \<and> 4 + 1 \<ge> errors_threshold settings
   \<and> 0 + timedelta 0 (open_duration settings) < 10000001
   \<and> storage_get
        (snd (cb_exit settings 0 (Some Timeout_class)
           [''foobar__num_errors__'' \<mapsto> \<lparr>entry_value = PyInt 4, entry_expiration = None\<rparr>]))
        10000001 (keys_is_open settings) (PyBool False) = Inr (PyBool False)
   \<and> cb_enter settings 10000001
        (snd (cb_exit settings 0 (Some Timeout_class)
           [''foobar__num_errors__'' \<mapsto> \<lparr>entry_value = PyInt 4, entry_expiration = None\<rparr>])) =
        Inr ()"
  using open_flag_expires [of settings Timeout_class
      "[''foobar__num_errors__'' \<mapsto> \<lparr>entry_value = PyInt 4, entry_expiration = None\<rparr>]" 4
      "snd (cb_exit settings 0 (Some Timeout_class)
           [''foobar__num_errors__'' \<mapsto> \<lparr>entry_value = PyInt 4, entry_expiration = None\<rparr>])"
      0 10000001]
  by (simp add: settings_def stored_count_def keys_num_errors_def timedelta_def)

text \<open>
  C4 fails as stated, at the instant \<open>open_duration\<close> seconds after the trip and for the
  duration 0. With a duration of 10 seconds and a trip at time 0, \<open>__enter__\<close> at exactly
  10 seconds still raises \<open>CircuitOpenError\<close>: \<open>get\<close> drops an entry only when its
  expiration is strictly before the clock. With the duration 0, \<open>set\<close> stores the
  expiration \<open>None\<close>, and \<open>__enter__\<close> raises the \<open>TypeError\<close> of comparing \<open>None\<close>
  with a datetime.
\<close>

theorem open_flag_at_deadline_counterexample:
  "cb_enter (settings\<lparr>errors_threshold := 1\<rparr>) (0 + timedelta 0 10)
     (snd (cb_exit (settings\<lparr>errors_threshold := 1\<rparr>) 0 (Some Timeout_class) Map.empty)) =
     Inl (CircuitOpenError ''foobar - Circuit Breaker is opened'')
   \<and> cb_enter (settings\<lparr>errors_threshold := 1, open_duration := 0\<rparr>) (0 + timedelta 0 0)
     (snd (cb_exit (settings\<lparr>errors_threshold := 1, open_duration := 0\<rparr>) 0
        (Some Timeout_class) Map.empty)) =
     Inl TypeError_lt"
  by (simp add: settings_def cb_enter_def cb_exit_def counted_def storage_increment_def
      storage_set_def storage_get_def keys_is_open_def keys_num_errors_def timedelta_def)

text \<open>With the duration 0 that \<open>TypeError\<close> is raised at every later time.\<close>

lemma zero_duration_enter_raises:
  assumes "open_duration cb = 0"
    and "c \<in> set (exceptions cb)"
    and "stored_count data0 (keys_num_errors cb) = Some n"
    and "n + 1 \<ge> errors_threshold cb"
  shows "cb_enter cb now (snd (cb_exit cb t0 (Some c) data0)) = Inl TypeError_lt"
  using assms(1) tripped_flag [OF assms(2,3,4), of t0]
  by (simp add: cb_enter_def storage_get_def)

text \<open>
  C6. For an outcome that is not a counted failure (the body completed, or it raised an
  exception whose class is not in \<open>exceptions\<close>), \<open>__exit__\<close> returns \<open>False\<close> and
  leaves the whole storage as it found it. The caller of the guarded section then gets
  the very exception the body raised, or normal completion.
\<close>

theorem exit_uncounted:
  "(\<not> counted cb exc_type \<longrightarrow> cb_exit cb now exc_type data = (Inr False, data))
   \<and> (cb_enter cb t_enter data = Inr () \<and> body data u = (Some x, data1, u1)
        \<and> type_of x \<notin> set (exceptions cb) \<longrightarrow>
      with_stmt cb t_enter body t_exit data u = (Raised x, data1, u1))
   \<and> (cb_enter cb t_enter data = Inr () \<and> body data u = (None, data1, u1) \<longrightarrow>
      with_stmt cb t_enter body t_exit data u = (Completed, data1, u1))"
  by (simp add: cb_exit_def with_stmt_def counted_def)

theorem exit_uncounted_witness:
  "\<not> counted settings (Some TypeError_class)
   \<and> cb_exit settings 3 (Some TypeError_class) Map.empty = (Inr False, Map.empty)
   \<and> \<not> counted settings None
   \<and> cb_exit settings 3 None Map.empty = (Inr False, Map.empty)
   \<and> cb_enter settings 1 Map.empty = Inr ()
   \<and> raising (PyExc TypeError_class ''bad operand'') Map.empty (0::nat) =
        (Some (PyExc TypeError_class ''bad operand''), Map.empty, 0)
   \<and> type_of (PyExc TypeError_class ''bad operand'') \<notin> set (exceptions settings)
   \<and> with_stmt settings 1 (raising (PyExc TypeError_class ''bad operand'')) 3 Map.empty (0::nat) =
        (Raised (PyExc TypeError_class ''bad operand''), Map.empty, 0)
   \<and> with_stmt settings 1 (\<lambda>data calls. (None, data, Suc calls)) 3 Map.empty (0::nat) =
        (Completed, Map.empty, 1)"
  using exit_uncounted [of settings "Some TypeError_class" 3 Map.empty 1
      "raising (PyExc TypeError_class ''bad operand'')" "0::nat"
      "PyExc TypeError_class ''bad operand''" Map.empty 0 3]
    exit_uncounted [of settings None 3 Map.empty 1
      "\<lambda>data calls. (None, data, Suc calls)" "0::nat"
      "PyExc TypeError_class ''bad operand''" Map.empty 1 3]
  by (simp add: counted_def settings_def raising_def enter_flag_missing TypeError_class_def
      Timeout_class_def HTTPError_class_def ConnectionError_class_def)



text \<open>\<open>time_window\<close> is stored by \<open>__init__\<close> and read by no method.\<close>

lemma enter_time_window: "cb_enter (cb\<lparr>time_window := w\<rparr>) = cb_enter cb"
  by (intro ext) (simp add: cb_enter_def keys_is_open_def cong: sum.case_cong if_cong)

lemma exit_time_window: "cb_exit (cb\<lparr>time_window := w\<rparr>) = cb_exit cb"
  by (intro ext)
     (simp add: cb_exit_def counted_def keys_is_open_def keys_num_errors_def
           cong: sum.case_cong prod.case_cong option.case_cong if_cong)

lemma call_breaker_time_window:
  "call_breaker (cb\<lparr>time_window := w\<rparr>) c data = call_breaker cb c data"
  by (cases c) (simp_all only: call_breaker.simps enter_time_window exit_time_window)

lemma run_time_window: "run (cb\<lparr>time_window := w\<rparr>) cs data = run cb cs data"
  by (induction cs arbitrary: data) (simp_all add: call_breaker_time_window)

lemma with_stmt_time_window:
  "with_stmt (cb\<lparr>time_window := w\<rparr>) t_enter body t_exit data u =
   with_stmt cb t_enter body t_exit data u"
  by (simp only: with_stmt_def enter_time_window exit_time_window)

text \<open>No call of any breaker gives a \<open>num_errors\<close> entry a datetime as expiration.\<close>

lemma exit_no_deadline:
  assumes "no_deadline data (keys_num_errors cb)"
  shows "no_deadline (snd (cb_exit cb' now exc_type data)) (keys_num_errors cb)"
proof (cases "counted cb' exc_type")
  case False
  with assms show ?thesis by (simp add: cb_exit_def)
next
  case True
  obtain r data1 where inc: "storage_increment data (keys_num_errors cb') = (r, data1)"
    by (cases "storage_increment data (keys_num_errors cb')")
  have nd: "no_deadline data1 (keys_num_errors cb)"
    using increment_no_deadline [OF assms, of "keys_num_errors cb'"] inc by simp
  show ?thesis
  proof (cases r)
    case (Inl err)
    with True inc nd show ?thesis by (simp add: cb_exit_def)
  next
    case (Inr m)
    with True inc nd keys_disjoint [of cb' cb] show ?thesis
      by (auto simp: cb_exit_def storage_set_def no_deadline_def expiration_of_def)
  qed
qed

lemma call_no_deadline:
  "no_deadline data (keys_num_errors cb) \<Longrightarrow>
     no_deadline (snd (call_breaker cb' c data)) (keys_num_errors cb)"
proof (cases c)
  case (Enter now)
  assume "no_deadline data (keys_num_errors cb)"
  with Enter show ?thesis by (simp split: sum.splits)
next
  case (Exit now exc_type)
  assume "no_deadline data (keys_num_errors cb)"
  from exit_no_deadline [OF this, of cb' now exc_type] Exit show ?thesis
    by (cases "cb_exit cb' now exc_type data") (auto split: sum.splits)
qed

lemma run_no_deadline:
  "no_deadline data (keys_num_errors cb) \<Longrightarrow>
     no_deadline (snd (run cb' cs data)) (keys_num_errors cb)"
proof (induction cs arbitrary: data)
  case Nil
  then show ?case by simp
next
  case (Cons c cs)
  obtain r data1 where c: "call_breaker cb' c data = (r, data1)"
    by (cases "call_breaker cb' c data")
  with call_no_deadline [OF Cons.prems, of cb' c]
  have "no_deadline data1 (keys_num_errors cb)" by simp
  from Cons.IH [OF this] c show ?case
    by (cases "run cb' cs data1") simp
qed

text \<open>Counted failures below the threshold add up, whatever the clock reads.\<close>

lemma failures_accumulate:
  assumes "stored_count data (keys_num_errors cb) = Some n"
    and "\<forall>(t, c) \<in> set tcs. c \<in> set (exceptions cb)"
    and "n + int (length tcs) < errors_threshold cb"
  shows "stored_count (snd (run cb (map (\<lambda>(t, c). Exit t (Some c)) tcs) data))
           (keys_num_errors cb) = Some (n + int (length tcs))"
  using assms
proof (induction tcs arbitrary: data n)
  case Nil
  then show ?case by simp
next
  case (Cons tc tcs)
  obtain t c where tc: "tc = (t, c)" by (cases tc)
  define d1 where "d1 = data(keys_num_errors cb \<mapsto>
                   \<lparr>entry_value = PyInt (n + 1),
                    entry_expiration = expiration_of data (keys_num_errors cb)\<rparr>)"
  from Cons.prems tc have c: "c \<in> set (exceptions cb)" by simp
  from Cons.prems have below: "n + 1 < errors_threshold cb" by simp
  have step: "cb_exit cb t (Some c) data = (Inr True, d1)"
    using exit_below_threshold [of "PyExc c []" cb data n t] c below Cons.prems(1)
    by (simp add: d1_def)
  have count: "stored_count d1 (keys_num_errors cb) = Some (n + 1)"
    unfolding d1_def by (rule stored_count_upd)
  have "\<forall>(t, c) \<in> set tcs. c \<in> set (exceptions cb)"
    and "n + 1 + int (length tcs) < errors_threshold cb"
    using Cons.prems(2,3) by simp_all
  then have "stored_count (snd (run cb (map (\<lambda>(t, c). Exit t (Some c)) tcs) d1))
           (keys_num_errors cb) = Some (n + 1 + int (length tcs))"
    by (rule Cons.IH [OF count])
  then show ?case
    by (cases "run cb (map (\<lambda>(t, c). Exit t (Some c)) tcs) d1") (simp add: tc step)
qed

text \<open>
  C8. Two breakers that differ in \<open>time_window\<close> only give the same results and the same
  storage on every sequence of \<open>__enter__\<close> and \<open>__exit__\<close> calls, and on every guarded
  section. The \<open>num_errors\<close> entry is never given a datetime as expiration: if it has
  none before a sequence of calls, it has none after. Counted failures accumulate with no
  bound in time: from the empty storage, fewer counted failures than the threshold, at
  any clock readings whatever, leave exactly their number in \<open>num_errors\<close>.
\<close>

theorem time_window_unused:
  "run (cb\<lparr>time_window := w\<rparr>) cs data = run cb cs data
   \<and> with_stmt (cb\<lparr>time_window := w\<rparr>) t_enter body t_exit data u =
       with_stmt cb t_enter body t_exit data u
   \<and> (no_deadline data (keys_num_errors cb) \<longrightarrow>
        no_deadline (snd (run cb cs data)) (keys_num_errors cb))
   \<and> ((\<forall>(t, c) \<in> set tcs. c \<in> set (exceptions cb)) \<and> int (length tcs) < errors_threshold cb \<longrightarrow>
        stored_count (snd (run cb (map (\<lambda>(t, c). Exit t (Some c)) tcs) Map.empty))
          (keys_num_errors cb) = Some (int (length tcs)))"
  using failures_accumulate [of Map.empty cb 0 tcs]
  by (simp add: run_time_window with_stmt_time_window run_no_deadline stored_count_def)

theorem time_window_unused_witness:
  "run (settings\<lparr>time_window := 0\<rparr>) [Enter 0, Exit 1 (Some Timeout_class), Enter 2] Map.empty =
     run settings [Enter 0, Exit 1 (Some Timeout_class), Enter 2] Map.empty
   \<and> no_deadline Map.empty (keys_num_errors settings)
   \<and> no_deadline (snd (run settings [Enter 0, Exit 1 (Some Timeout_class), Enter 2] Map.empty))
        (keys_num_errors settings)
   \<and> Timeout_class \<in> set (exceptions settings)
   \<and> HTTPError_class \<in> set (exceptions settings)
   \<and> int (length [(0::int, Timeout_class), (3600000000, HTTPError_class)])
        < errors_threshold settings
   \<and> stored_count
        (snd (run settings
           (map (\<lambda>(t, c). Exit t (Some c)) [(0, Timeout_class), (3600000000, HTTPError_class)])
           Map.empty))
        (keys_num_errors settings) = Some 2"
proof -
  have h1: "no_deadline Map.empty (keys_num_errors settings)"
    by (simp add: no_deadline_def expiration_of_def)
  have h2: "Timeout_class \<in> set (exceptions settings)"
    and h3: "HTTPError_class \<in> set (exceptions settings)"
    by (simp_all add: settings_def)
  have h4: "int (length [(0::int, Timeout_class), (3600000000, HTTPError_class)])
        < errors_threshold settings"
    by (simp add: settings_def)
  from h1 h2 h3 h4 time_window_unused [where cb = settings and w = 0
      and cs = "[Enter 0, Exit 1 (Some Timeout_class), Enter 2]" and data = Map.empty
      and tcs = "[(0, Timeout_class), (3600000000, HTTPError_class)]"
      and t_enter = 0 and body = "raising (PyExc Timeout_class [])" and t_exit = 1 and u = "()"]
  show ?thesis by (simp del: run.simps)
qed

text \<open>
  C10. \<open>__exit__\<close> looks the class of the exception up in \<open>exceptions\<close> and does not
  consult the class hierarchy: an exception whose class is a strict subclass of a member
  of \<open>exceptions\<close> without being a member is not counted. \<open>__exit__\<close> returns
  \<open>False\<close> with the storage untouched, and the caller gets the exception.
\<close>

theorem exact_class_match:
  assumes "issubclass c d" and "c \<noteq> d"
    and "d \<in> set (exceptions cb)" and "c \<notin> set (exceptions cb)"
  shows "cb_exit cb now (Some c) data = (Inr False, data)
       \<and> (cb_enter cb t_enter data = Inr () \<and> body data u = (Some (PyExc c msg), data1, u1) \<longrightarrow>
          with_stmt cb t_enter body now data u = (Raised (PyExc c msg), data1, u1))"
  using assms by (simp add: cb_exit_def with_stmt_def counted_def)

theorem exact_class_match_witness:
  "issubclass ConnectTimeout_class Timeout_class
   \<and> ConnectTimeout_class \<noteq> Timeout_class
   \<and> Timeout_class \<in> set (exceptions settings)
   \<and> ConnectTimeout_class \<notin> set (exceptions settings)
   \<and> cb_exit settings 3 (Some ConnectTimeout_class) Map.empty = (Inr False, Map.empty)
   \<and> cb_enter settings 1 Map.empty = Inr ()
   \<and> with_stmt settings 1 (raising (PyExc ConnectTimeout_class ''timed out'')) 3 Map.empty
        (0::nat) =
        (Raised (PyExc ConnectTimeout_class ''timed out''), Map.empty, 0)"
  using exact_class_match [of ConnectTimeout_class Timeout_class settings 3 Map.empty 1
      "raising (PyExc ConnectTimeout_class ''timed out'')" "0::nat" "''timed out''" Map.empty 0]
  by (simp add: settings_def raising_def enter_flag_missing ConnectTimeout_class_def
      Timeout_class_def HTTPError_class_def ConnectionError_class_def RequestException_class_def)

text \<open>
  The \<open>num_errors\<close> entry of a breaker holds an integer after any calls of any breaker,
  if it did before; in the empty storage it does.
\<close>

lemma exit_keeps_count:
  assumes "stored_count data (keys_num_errors cb) \<noteq> None"
  shows "stored_count (snd (cb_exit cb' now exc_type data)) (keys_num_errors cb) \<noteq> None"
proof (cases "counted cb' exc_type")
  case False
  with assms show ?thesis by (simp add: cb_exit_def)
next
  case True
  obtain r data1 where inc: "storage_increment data (keys_num_errors cb') = (r, data1)"
    by (cases "storage_increment data (keys_num_errors cb')")
  have ok: "stored_count data1 (keys_num_errors cb) \<noteq> None"
    using increment_keeps_count [OF assms, of "keys_num_errors cb'"] inc by simp
  show ?thesis
  proof (cases r)
    case (Inl err)
    with True inc ok show ?thesis by (simp add: cb_exit_def)
  next
    case (Inr m)
    with True inc ok keys_disjoint [of cb' cb] show ?thesis
      by (auto simp: cb_exit_def storage_set_def stored_count_def)
  qed
qed

lemma run_keeps_count:
  "stored_count data (keys_num_errors cb) \<noteq> None \<Longrightarrow>
     stored_count (snd (run cb' cs data)) (keys_num_errors cb) \<noteq> None"
proof (induction cs arbitrary: data)
  case Nil
  then show ?case by simp
next
  case (Cons c cs)
  obtain r data1 where c: "call_breaker cb' c data = (r, data1)"
    by (cases "call_breaker cb' c data")
  have "stored_count data1 (keys_num_errors cb) \<noteq> None"
  proof (cases c)
    case (Enter now)
    with c Cons.prems show ?thesis by (auto split: sum.splits)
  next
    case (Exit now exc_type)
    with c exit_keeps_count [OF Cons.prems, of cb' now exc_type] show ?thesis
      by (cases "cb_exit cb' now exc_type data") (auto split: sum.splits)
  qed
  from Cons.IH [OF this] c show ?case
    by (cases "run cb' cs data1") simp
qed

end
